theory Spec2Isabelle
  imports Main
begin

section \<open>Python values and exceptions\<close>

text \<open>
  The alert device client is a single Python module, \<^verbatim>\<open>alert/main.py\<close>. Its functions
  are embedded here as HOL functions. Python \<^verbatim>\<open>str\<close> and \<^verbatim>\<open>bytes\<close> values are both
  \<^typ>\<open>string\<close> (a byte string, already UTF-8), so \<^verbatim>\<open>.encode('utf-8')\<close> is the identity.

  An exception is a value. \<open>PyException cls msg\<close> is an instance of \<^verbatim>\<open>Exception\<close> or of one
  of its subclasses (class name, then the text \<^verbatim>\<open>str(e)\<close>): a handler
  \<^verbatim>\<open>except Exception\<close> catches it. \<open>SystemExit a\<close> is what \<^verbatim>\<open>sys.exit(a)\<close> raises; it derives
  from \<^verbatim>\<open>BaseException\<close> only, so \<^verbatim>\<open>except Exception\<close> lets it through.
\<close>

datatype exit_arg = ExitCode int | ExitMessage string

datatype py_error = PyException string string | SystemExit exit_arg

text \<open>
  The status with which the interpreter ends when the exception reaches the top of the main
  thread: \<^verbatim>\<open>sys.exit(n)\<close> gives \<open>n\<close>, \<^verbatim>\<open>sys.exit('text')\<close> prints the text and gives 1, an
  uncaught exception prints its traceback and gives 1.
\<close>

fun exit_status :: "py_error \<Rightarrow> int" where
  "exit_status (SystemExit (ExitCode n)) = n"
| "exit_status (SystemExit (ExitMessage m)) = 1"
| "exit_status (PyException cls m) = 1"

section \<open>Discovery response, connections, module globals\<close>

text \<open>
  The discovery response of the SDK, as far as the module reads it:
  \<^verbatim>\<open>discover_response.gg_groups\<close>, \<^verbatim>\<open>gg_group.cores\<close>, \<^verbatim>\<open>gg_group.certificate_authorities\<close>,
  \<^verbatim>\<open>gg_core.thing_arn\<close>, \<^verbatim>\<open>gg_core.connectivity\<close>, \<^verbatim>\<open>connectivity_info.host_address\<close> and
  \<^verbatim>\<open>connectivity_info.port\<close>.
\<close>

record connectivity_info =
  host_address :: string
  port :: int

record gg_core =
  thing_arn :: string
  connectivity :: "connectivity_info list"

record gg_group =
  cores :: "gg_core list"
  certificate_authorities :: "string list"

record discover_response =
  gg_groups :: "gg_group list"

text \<open>
  A connection object is the value \<^verbatim>\<open>mqtt_connection_builder.mtls_from_path\<close> returns. It is
  identified by the keyword arguments of that call (lines 130 to 142); the two callbacks and
  the client bootstrap are the same objects in every call and are left out. The path
  arguments are the module globals, which are \<^verbatim>\<open>None\<close> until \<^verbatim>\<open>arg_check\<close> has set them.
\<close>

record connection =
  endpoint :: string
  endpoint_port :: int
  cert_filepath :: "string option"
  pri_key_filepath :: "string option"
  ca_bytes :: string
  client_id :: "string option"
  clean_session :: bool
  keep_alive_secs :: int

text \<open>The module-level variables of lines 23 to 28.\<close>

record globals =
  private_key_path :: "string option"
  certtificate_path :: "string option"
  root_ca_path :: "string option"
  device_name :: "string option"
  region :: "string option"
  mqtt_connection :: "connection option"

text \<open>
  The enumerations of the SDK the module names: \<^verbatim>\<open>awscrt.io.LogLevel\<close> (values 0 to 6, in
  this order), \<^verbatim>\<open>awscrt.mqtt.ConnectReturnCode\<close> and \<^verbatim>\<open>awscrt.mqtt.QoS\<close>.
\<close>

datatype LogLevel = NoLogs | Fatal | Error | Warn | Info | Debug | Trace

datatype ConnectReturnCode =
    ACCEPTED
  | UNACCEPTABLE_PROTOCOL_VERSION
  | IDENTIFIER_REJECTED
  | SERVER_UNAVAILABLE
  | BAD_USERNAME_OR_PASSWORD
  | NOT_AUTHORIZED

datatype QoS = AT_MOST_ONCE | AT_LEAST_ONCE | EXACTLY_ONCE

text \<open>
  What the program does to the outside, in the order it does it: lines printed, records
  handed to the logger, and calls into the SDK. The calls \<open>SdkDiscover\<close>, \<open>SdkConnect\<close>,
  \<open>SdkSubscribe\<close>, \<open>SdkResubscribeExistingTopics\<close> and \<open>SdkDisconnect\<close> are the ones that
  reach the network.
\<close>

datatype event =
    PrintTrying string string int
  | PrintConnected
  | PrintFailed string
  | PrintResumed ConnectReturnCode bool
  | PrintLine string
  | PrintResubscribeResults "(string \<times> QoS option) list"
  | PrintSubscribed string QoS
  | PrintTraceback string string
  | LogInfo string
  | LogError string
  | LogDebug discover_response
  | InitLogging LogLevel
  | LoggerSetLevel int
  | SdkTlsContext "string option" "string option"
  | SdkDiscover "string option" "string option"
  | SdkConnect connection
  | SdkSubscribe connection string QoS
  | SdkResubscribeExistingTopics connection
  | SdkAddDoneCallback
  | SdkDisconnect connection

fun is_network :: "event \<Rightarrow> bool" where
  "is_network (SdkDiscover r n) = True"
| "is_network (SdkConnect c) = True"
| "is_network (SdkSubscribe c t q) = True"
| "is_network (SdkResubscribeExistingTopics c) = True"
| "is_network (SdkDisconnect c) = True"
| "is_network e = False"

section \<open>The connection loop of \<^verbatim>\<open>discover_gg_host\<close>\<close>

text \<open>
  The SDK and the network behind it are a parameter. A connect oracle \<open>sdk\<close> applied to \<open>w\<close> and \<open>c\<close> stands for
  \<^verbatim>\<open>mtls_from_path(...)\<close> followed by \<^verbatim>\<open>connection.connect().result()\<close> on the connection
  \<open>c\<close>, in the state \<open>w\<close> of the outside world: it answers \<open>None\<close> when both calls return,
  \<open>Some e\<close> when one of them raises \<open>e\<close>, and gives the next state of the world. The answer
  may depend on everything that happened before, through \<open>w\<close>.
\<close>

type_synonym 'w connect_oracle = "'w \<Rightarrow> connection \<Rightarrow> py_error option \<times> 'w"

text \<open>The arguments of the call at lines 130 to 142, for a trust anchor \<open>ca\<close>.\<close>

definition mtls_from_path :: "globals \<Rightarrow> connectivity_info \<Rightarrow> string \<Rightarrow> connection" where
  "mtls_from_path g ci ca =
     \<lparr> endpoint = host_address ci,
       endpoint_port = port ci,
       cert_filepath = certtificate_path g,
       pri_key_filepath = private_key_path g,
       ca_bytes = ca,
       client_id = device_name g,
       clean_session = False,
       keep_alive_secs = 6 \<rparr>"

text \<open>
  The body of the \<^verbatim>\<open>try\<close> block, lines 125 to 148, for one connectivity entry: the line
  printed first, then the arguments of \<^verbatim>\<open>mtls_from_path\<close> are evaluated, where
  \<^verbatim>\<open>gg_group.certificate_authorities[0]\<close> raises \<^verbatim>\<open>IndexError\<close> on an empty list before any
  SDK call is made; then the SDK builds the connection and connects. The result is the
  connection (the \<^verbatim>\<open>return\<close> of line 148) or the exception raised inside the block.
\<close>

definition try_body ::
  "'w connect_oracle \<Rightarrow> globals \<Rightarrow> gg_group \<Rightarrow> gg_core \<Rightarrow> connectivity_info \<Rightarrow> 'w
     \<Rightarrow> 'w \<times> event list \<times> (py_error + connection)" where
  "try_body sdk g grp core ci w =
     (case certificate_authorities grp of
        [] \<Rightarrow>
          (w, [PrintTrying (thing_arn core) (host_address ci) (port ci)],
           Inl (PyException ''IndexError'' ''list index out of range''))
      | ca # cas \<Rightarrow>
          (case sdk w (mtls_from_path g ci ca) of
             (None, w') \<Rightarrow>
               (w', [PrintTrying (thing_arn core) (host_address ci) (port ci),
                     SdkConnect (mtls_from_path g ci ca), PrintConnected],
                Inr (mtls_from_path g ci ca))
           | (Some e, w') \<Rightarrow>
               (w', [PrintTrying (thing_arn core) (host_address ci) (port ci),
                     SdkConnect (mtls_from_path g ci ca)],
                Inl e)))"

text \<open>
  How a loop of the function ends: it runs out of elements, the function returns a
  connection from inside it, or an exception leaves it.
\<close>

datatype loop_exit = FellThrough | Returned connection | Raised py_error

text \<open>
  The innermost loop, line 123. The handler of line 150 catches every \<^verbatim>\<open>Exception\<close>, prints
  it and goes on with the next entry; anything else raised in the block leaves the function.
\<close>

fun connectivity_loop ::
  "'w connect_oracle \<Rightarrow> globals \<Rightarrow> gg_group \<Rightarrow> gg_core \<Rightarrow> 'w \<Rightarrow> connectivity_info list
     \<Rightarrow> 'w \<times> event list \<times> loop_exit" where
  "connectivity_loop sdk g grp core w [] = (w, [], FellThrough)"
| "connectivity_loop sdk g grp core w (ci # cis) =
     (case try_body sdk g grp core ci w of
        (w', evs, Inr c) \<Rightarrow> (w', evs, Returned c)
      | (w', evs, Inl (PyException cls msg)) \<Rightarrow>
          (case connectivity_loop sdk g grp core w' cis of
             (w'', evs', r) \<Rightarrow> (w'', evs @ PrintFailed msg # evs', r))
      | (w', evs, Inl (SystemExit a)) \<Rightarrow> (w', evs, Raised (SystemExit a)))"

text \<open>The loop over the cores of a group, line 122.\<close>

fun cores_loop ::
  "'w connect_oracle \<Rightarrow> globals \<Rightarrow> gg_group \<Rightarrow> 'w \<Rightarrow> gg_core list
     \<Rightarrow> 'w \<times> event list \<times> loop_exit" where
  "cores_loop sdk g grp w [] = (w, [], FellThrough)"
| "cores_loop sdk g grp w (core # rest) =
     (case connectivity_loop sdk g grp core w (connectivity core) of
        (w', evs, FellThrough) \<Rightarrow>
          (case cores_loop sdk g grp w' rest of (w'', evs', r) \<Rightarrow> (w'', evs @ evs', r))
      | (w', evs, Returned c) \<Rightarrow> (w', evs, Returned c)
      | (w', evs, Raised e) \<Rightarrow> (w', evs, Raised e))"

text \<open>The loop over the groups of the response, line 121.\<close>

fun groups_loop ::
  "'w connect_oracle \<Rightarrow> globals \<Rightarrow> 'w \<Rightarrow> gg_group list \<Rightarrow> 'w \<times> event list \<times> loop_exit" where
  "groups_loop sdk g w [] = (w, [], FellThrough)"
| "groups_loop sdk g w (grp # rest) =
     (case cores_loop sdk g grp w (cores grp) of
        (w', evs, FellThrough) \<Rightarrow>
          (case groups_loop sdk g w' rest of (w'', evs', r) \<Rightarrow> (w'', evs @ evs', r))
      | (w', evs, Returned c) \<Rightarrow> (w', evs, Returned c)
      | (w', evs, Raised e) \<Rightarrow> (w', evs, Raised e))"

text \<open>
  Lines 121 to 154: the three loops, then \<^verbatim>\<open>sys.exit('All connection attempts failed')\<close>
  when they run out. The function returns the connection or raises.
\<close>

definition connect_discovered ::
  "'w connect_oracle \<Rightarrow> globals \<Rightarrow> 'w \<Rightarrow> discover_response
     \<Rightarrow> 'w \<times> event list \<times> (py_error + connection)" where
  "connect_discovered sdk g w resp =
     (case groups_loop sdk g w (gg_groups resp) of
        (w', evs, FellThrough) \<Rightarrow>
          (w', evs, Inl (SystemExit (ExitMessage ''All connection attempts failed'')))
      | (w', evs, Returned c) \<Rightarrow> (w', evs, Inr c)
      | (w', evs, Raised e) \<Rightarrow> (w', evs, Inl e))"

section \<open>Candidates in discovery order\<close>

text \<open>
  A candidate is one connectivity entry together with the core and the group it belongs to.
  \<open>candidates\<close> lists them in the order of the response: group by group, inside a group
  core by core, inside a core entry by entry.
\<close>

type_synonym candidate = "gg_group \<times> gg_core \<times> connectivity_info"

definition candidates :: "discover_response \<Rightarrow> candidate list" where
  "candidates resp =
     concat (map (\<lambda>grp. concat (map (\<lambda>core. map (\<lambda>ci. (grp, core, ci)) (connectivity core))
                                     (cores grp)))
                 (gg_groups resp))"

text \<open>
  The procedure in the words of the specification: take the candidates one after the other
  in the order given; stop at the first that succeeds and return its session; on a failure
  record the reason and go on with the next candidate; when none is left, there is no
  session. It is compared with the three nested loops of the source below.
\<close>

fun try_in_order ::
  "'w connect_oracle \<Rightarrow> globals \<Rightarrow> 'w \<Rightarrow> candidate list \<Rightarrow> 'w \<times> event list \<times> loop_exit" where
  "try_in_order sdk g w [] = (w, [], FellThrough)"
| "try_in_order sdk g w ((grp, core, ci) # cs) =
     (case try_body sdk g grp core ci w of
        (w', evs, Inr c) \<Rightarrow> (w', evs, Returned c)
      | (w', evs, Inl (PyException cls msg)) \<Rightarrow>
          (case try_in_order sdk g w' cs of
             (w'', evs', r) \<Rightarrow> (w'', evs @ PrintFailed msg # evs', r))
      | (w', evs, Inl (SystemExit a)) \<Rightarrow> (w', evs, Raised (SystemExit a)))"



text \<open>
  Reading a trace: the candidates announced by \<^verbatim>\<open>Trying core ... at host ... port ...\<close>, the
  reasons printed by \<^verbatim>\<open>Connection failed with exception ...\<close>, and the connections handed to
  the SDK.
\<close>

definition tried :: "event list \<Rightarrow> (string \<times> string \<times> int) list" where
  "tried evs = concat (map (\<lambda>e. case e of PrintTrying a h p \<Rightarrow> [(a, h, p)] | _ \<Rightarrow> []) evs)"

definition failures :: "event list \<Rightarrow> string list" where
  "failures evs = concat (map (\<lambda>e. case e of PrintFailed m \<Rightarrow> [m] | _ \<Rightarrow> []) evs)"

definition sdk_connects :: "event list \<Rightarrow> connection list" where
  "sdk_connects evs = concat (map (\<lambda>e. case e of SdkConnect c \<Rightarrow> [c] | _ \<Rightarrow> []) evs)"








text \<open>
  What the loops print for a group without trust anchors: for each of its candidates the
  announcement and the \<^verbatim>\<open>IndexError\<close> text, and nothing else.
\<close>

definition index_error_events :: "gg_group \<Rightarrow> event list" where
  "index_error_events grp =
     concat (map (\<lambda>core. concat (map (\<lambda>ci. [PrintTrying (thing_arn core) (host_address ci) (port ci),
                                                PrintFailed ''list index out of range''])
                                       (connectivity core)))
                 (cores grp))"

section \<open>String formatting with the percent operator\<close>

text \<open>
  \<^verbatim>\<open>fmt % value\<close> for a right operand that is neither a tuple nor a mapping: there is one
  argument, \<open>Some\<close> of its text until a conversion has consumed it. Python scans the format
  from the left; \<^verbatim>\<open>%%\<close> gives a percent sign, \<^verbatim>\<open>%s\<close> consumes the argument and raises
  \<^verbatim>\<open>TypeError\<close> when none is left, a percent sign at the end raises \<^verbatim>\<open>ValueError\<close>, and an
  argument still unused at the end raises \<^verbatim>\<open>TypeError\<close>. Only the conversions this module
  contains, \<^verbatim>\<open>%s\<close> and \<^verbatim>\<open>%%\<close>, are modelled: any other character after a percent sign
  (flags, widths and the other conversion types included) is answered as an unknown
  conversion character.
\<close>

definition prepend :: "string \<Rightarrow> py_error + string \<Rightarrow> py_error + string" where
  "prepend s r = (case r of Inl e \<Rightarrow> Inl e | Inr t \<Rightarrow> Inr (s @ t))"

fun percent_format :: "string \<Rightarrow> string option \<Rightarrow> py_error + string" where
  "percent_format [] None = Inr []"
| "percent_format [] (Some a) =
     Inl (PyException ''TypeError'' ''not all arguments converted during string formatting'')"
| "percent_format [c] arg =
     (if c = CHR ''%'' then Inl (PyException ''ValueError'' ''incomplete format'')
      else prepend [c] (percent_format [] arg))"
| "percent_format (c # d # ds) arg =
     (if c \<noteq> CHR ''%'' then prepend [c] (percent_format (d # ds) arg)
      else if d = CHR ''%'' then prepend ''%'' (percent_format ds arg)
      else if d = CHR ''s'' then
        (case arg of
           None \<Rightarrow> Inl (PyException ''TypeError'' ''not enough arguments for format string'')
         | Some a \<Rightarrow> prepend a (percent_format ds None))
      else Inl (PyException ''ValueError'' ''unsupported format character''))"

section \<open>Certificate lookup and argument check\<close>

text \<open>Python's \<^verbatim>\<open>sub in s\<close> on strings: \<open>sub\<close> occurs in \<open>s\<close> as a contiguous piece.\<close>

fun str_contains :: "string \<Rightarrow> string \<Rightarrow> bool" where
  "str_contains sub [] = (sub = [])"
| "str_contains sub (c # cs) = (take (length sub) (c # cs) = sub \<or> str_contains sub cs)"

text \<open>
  \<^verbatim>\<open>os.walk(CERT_ROOT)\<close> yields one triple (directory path, directory names, file names) for
  the directory itself and for every directory below it, and nothing when the directory
  does not exist. The listing is a parameter.
\<close>

type_synonym walk = "(string \<times> string list \<times> string list) list"

text \<open>The inner loop of \<^verbatim>\<open>find_cert_file\<close>, lines 52 to 54: the first name that matches.\<close>

fun names_loop :: "string \<Rightarrow> string list \<Rightarrow> string option" where
  "names_loop cert_prefix [] = None"
| "names_loop cert_prefix (file # names) =
     (if str_contains cert_prefix file then Some file else names_loop cert_prefix names)"

text \<open>The outer loop, line 51.\<close>

fun walk_loop :: "string \<Rightarrow> walk \<Rightarrow> string option" where
  "walk_loop cert_prefix [] = None"
| "walk_loop cert_prefix ((dirpath, dirnames, names) # rest) =
     (case names_loop cert_prefix names of
        Some file \<Rightarrow> Some file
      | None \<Rightarrow> walk_loop cert_prefix rest)"

text \<open>
  \<^verbatim>\<open>find_cert_file\<close>, lines 37 to 56. \<open>CERT_ROOT\<close> is the directory of the module followed by
  \<^verbatim>\<open>certs/\<close>; the path returned is \<open>CERT_ROOT\<close>, a slash and the name found, also when the name
  was found in a directory below. When nothing matches the function raises
  \<^verbatim>\<open>Exception("%s not found." % cert_prefix)\<close>.
\<close>

definition find_cert_file :: "string \<Rightarrow> walk \<Rightarrow> string \<Rightarrow> py_error + string" where
  "find_cert_file CERT_ROOT tree cert_prefix =
     (case walk_loop cert_prefix tree of
        Some file \<Rightarrow> Inr (CERT_ROOT @ ''/'' @ file)
      | None \<Rightarrow>
          (case percent_format ''%s not found.'' (Some cert_prefix) of
             Inl e \<Rightarrow> Inl e
           | Inr msg \<Rightarrow> Inl (PyException ''Exception'' msg)))"

text \<open>All file names of a listing, in the order the loops of \<^verbatim>\<open>find_cert_file\<close> meet them.\<close>

definition all_names :: "walk \<Rightarrow> string list" where
  "all_names tree = concat (map (\<lambda>(dirpath, dirnames, names). names) tree)"

text \<open>The parsed command line: \<^verbatim>\<open>args.thing_name\<close>, \<^verbatim>\<open>args.region\<close>, \<^verbatim>\<open>args.verbosity\<close>.\<close>

record args =
  thing_name :: string
  region_arg :: string
  verbosity :: LogLevel

fun LogLevel_value :: "LogLevel \<Rightarrow> nat" where
  "LogLevel_value NoLogs = 0"
| "LogLevel_value Fatal = 1"
| "LogLevel_value Error = 2"
| "LogLevel_value Warn = 3"
| "LogLevel_value Info = 4"
| "LogLevel_value Debug = 5"
| "LogLevel_value Trace = 6"

text \<open>Line 85: \<^verbatim>\<open>logging.INFO\<close> is 20 and \<^verbatim>\<open>logging.DEBUG\<close> is 10.\<close>

definition loglevel_map :: "int list" where
  "loglevel_map = [20, 20, 20, 20, 20, 10, 10]"

text \<open>
  \<^verbatim>\<open>arg_check\<close>, lines 59 to 96. \<open>parsed\<close> is what \<^verbatim>\<open>parser.parse_args()\<close> does: it returns the
  arguments or leaves with \<^verbatim>\<open>SystemExit\<close>. The index into \<open>loglevel_map\<close> is a log level, at
  most 6, so it is in range. The three lookups follow in the order of lines 92 to 94; the
  first that raises ends the function.
\<close>

definition arg_check ::
  "string \<Rightarrow> walk \<Rightarrow> py_error + args \<Rightarrow> globals \<Rightarrow> event list \<times> (py_error + globals)" where
  "arg_check CERT_ROOT tree parsed g =
     (case parsed of
        Inl e \<Rightarrow> ([], Inl e)
      | Inr a \<Rightarrow>
          (let evs = [InitLogging (verbosity a),
                      LoggerSetLevel (loglevel_map ! LogLevel_value (verbosity a))]
           in case find_cert_file CERT_ROOT tree ''private.key'' of
                Inl e \<Rightarrow> (evs, Inl e)
              | Inr key \<Rightarrow>
                  (case find_cert_file CERT_ROOT tree ''cert.pem'' of
                     Inl e \<Rightarrow> (evs, Inl e)
                   | Inr cert \<Rightarrow>
                       (case find_cert_file CERT_ROOT tree ''AmazonRootCA1.pem'' of
                          Inl e \<Rightarrow> (evs, Inl e)
                        | Inr root \<Rightarrow>
                            (evs, Inr (g\<lparr> private_key_path := Some key,
                                          certtificate_path := Some cert,
                                          root_ca_path := Some root,
                                          device_name := Some (thing_name a),
                                          region := Some (region_arg a) \<rparr>))))))"


section \<open>Discovery and the main function\<close>

text \<open>
  The other SDK calls of the main thread. \<open>tls_context\<close> stands for lines 105 to 108, which
  read the certificate and the key from the two paths; \<open>discover\<close> for lines 114 to 117, the
  discovery request for the device name in the region; \<open>subscribe\<close> for lines 200 to 202.
  Each returns its result or raises.
\<close>

record 'w sdk =
  tls_context :: "string option \<Rightarrow> string option \<Rightarrow> py_error option"
  discover :: "'w \<Rightarrow> string option \<Rightarrow> string option \<Rightarrow> (py_error + discover_response) \<times> 'w"
  connect :: "'w connect_oracle"
  subscribe :: "'w \<Rightarrow> connection \<Rightarrow> string \<Rightarrow> QoS \<Rightarrow> (py_error + QoS) \<times> 'w"

text \<open>
  \<^verbatim>\<open>discover_gg_host\<close>, lines 99 to 154: the TLS context, the discovery request, whose
  response is handed to the logger at debug level, and the connection loop. The event loop
  group, host resolver and client bootstrap of lines 101 to 103 and the socket options of
  lines 110 and 111 (a connect timeout of 3000 ms) are objects handed to the discovery
  client; they are part of what \<open>discover\<close> stands for.
\<close>

definition discover_gg_host ::
  "'w sdk \<Rightarrow> globals \<Rightarrow> 'w \<Rightarrow> 'w \<times> event list \<times> (py_error + connection)" where
  "discover_gg_host sdk g w =
     (case tls_context sdk (certtificate_path g) (private_key_path g) of
        Some e \<Rightarrow> (w, [SdkTlsContext (certtificate_path g) (private_key_path g)], Inl e)
      | None \<Rightarrow>
          (case discover sdk w (region g) (device_name g) of
             (Inl e, w') \<Rightarrow>
               (w', [SdkTlsContext (certtificate_path g) (private_key_path g),
                     LogInfo ''Performing greengrass discovery...'',
                     SdkDiscover (region g) (device_name g)],
                Inl e)
           | (Inr discover_response, w') \<Rightarrow>
               (case connect_discovered (connect sdk) g w' discover_response of
                  (w'', evs, r) \<Rightarrow>
                    (w'', [SdkTlsContext (certtificate_path g) (private_key_path g),
                           LogInfo ''Performing greengrass discovery...'',
                           SdkDiscover (region g) (device_name g),
                           LogDebug discover_response] @ evs,
                     r))))"

text \<open>
  \<^verbatim>\<open>device_main\<close>, lines 190 to 208, up to the loop of line 206, which only sleeps and never
  ends: the result \<open>Inr g\<close> says that the program has reached that loop with the globals
  \<open>g\<close>, \<open>Inl e\<close> that \<open>e\<close> was raised before and ends the program.
\<close>

definition device_main ::
  "'w sdk \<Rightarrow> string \<Rightarrow> walk \<Rightarrow> py_error + args \<Rightarrow> globals \<Rightarrow> 'w
     \<Rightarrow> 'w \<times> event list \<times> (py_error + globals)" where
  "device_main sdk CERT_ROOT tree parsed g w =
     (case arg_check CERT_ROOT tree parsed g of
        (evs, Inl e) \<Rightarrow> (w, evs, Inl e)
      | (evs, Inr g') \<Rightarrow>
          (case discover_gg_host sdk g' w of
             (w', evs', Inl e) \<Rightarrow> (w', evs @ evs', Inl e)
           | (w', evs', Inr c) \<Rightarrow>
               (case subscribe sdk w' c ''alert/#'' AT_MOST_ONCE of
                  (Inl e, w'') \<Rightarrow>
                    (w'', evs @ evs' @ [SdkSubscribe c ''alert/#'' AT_MOST_ONCE], Inl e)
                | (Inr qos, w'') \<Rightarrow>
                    (w'', evs @ evs' @ [SdkSubscribe c ''alert/#'' AT_MOST_ONCE,
                                        PrintSubscribed ''alert/#'' qos],
                     Inr (g'\<lparr> mqtt_connection := Some c \<rparr>)))))"

section \<open>Connection callbacks\<close>

text \<open>
  \<^verbatim>\<open>on_connection_interupted\<close>, lines 157 and 158. The argument of \<^verbatim>\<open>logger.info\<close> is
  evaluated first: the format string applied with the percent operator to the error object
  the SDK passes, an exception instance, of which \<open>error\<close> is the text. When that
  raises, nothing is logged.
\<close>

definition on_connection_interupted :: "connection \<Rightarrow> string \<Rightarrow> event list \<times> py_error option" where
  "on_connection_interupted c error =
     (case percent_format ''connection interrupted with error {}'' (Some error) of
        Inl e \<Rightarrow> ([], Some e)
      | Inr msg \<Rightarrow> ([LogInfo msg], None))"

text \<open>\<^verbatim>\<open>on_connection_resumed\<close>, lines 162 to 174.\<close>

definition on_connection_resumed :: "connection \<Rightarrow> ConnectReturnCode \<Rightarrow> bool \<Rightarrow> event list" where
  "on_connection_resumed c return_code session_present =
     PrintResumed return_code session_present #
     (if return_code = ACCEPTED \<and> \<not> session_present then
        [PrintLine ''Session did not persist. Resubscribing to existing topics...'',
         SdkResubscribeExistingTopics c,
         SdkAddDoneCallback]
      else [])"

definition resubscribe_calls :: "event list \<Rightarrow> connection list" where
  "resubscribe_calls evs =
     concat (map (\<lambda>e. case e of SdkResubscribeExistingTopics c \<Rightarrow> [c] | _ \<Rightarrow> []) evs)"

text \<open>
  The result of the resubscribe future: \<^verbatim>\<open>resubscribe_results['topics']\<close> is a list of pairs
  of a topic and the quality of service granted, \<^verbatim>\<open>None\<close> when the server rejected the topic.
\<close>

record resubscribe_results =
  packet_id :: "int option"
  topics :: "(string \<times> QoS option) list"

text \<open>The loop of lines 181 to 183: \<^verbatim>\<open>sys.exit\<close> raises, which ends the loop.\<close>

fun topics_loop :: "(string \<times> QoS option) list \<Rightarrow> py_error option" where
  "topics_loop [] = None"
| "topics_loop ((topic, qos) # rest) =
     (case qos of
        None \<Rightarrow> Some (SystemExit (ExitMessage (''Server rejected resubscribe to topic: '' @ topic)))
      | Some q \<Rightarrow> topics_loop rest)"

text \<open>
  \<^verbatim>\<open>on_resubscribe_complete\<close>, lines 177 to 183. \<open>fut\<close> is the finished future:
  \<^verbatim>\<open>resubscribe_future.result()\<close> returns the results or raises the exception of the future.
\<close>

definition on_resubscribe_complete ::
  "py_error + resubscribe_results \<Rightarrow> event list \<times> py_error option" where
  "on_resubscribe_complete fut =
     (case fut of
        Inl e \<Rightarrow> ([], Some e)
      | Inr resubscribe_results \<Rightarrow>
          ([PrintResubscribeResults (topics resubscribe_results)],
           topics_loop (topics resubscribe_results)))"

section \<open>Leaving the program\<close>

text \<open>
  \<^verbatim>\<open>exit_sample\<close>, lines 211 to 233. The argument is a message or an \<^verbatim>\<open>Exception\<close> instance.
  The guard of line 230 is \<^verbatim>\<open>not mqtt_connection\<close>: it holds when the global is still \<^verbatim>\<open>None\<close>
  and fails for a connection object, which is true like every object without a length or
  a truth value of its own. Inside the guard \<^verbatim>\<open>mqtt_connection.disconnect()\<close> is therefore
  evaluated on \<^verbatim>\<open>None\<close> and raises \<^verbatim>\<open>AttributeError\<close>. The function never returns: its result
  is the exception that leaves it.
\<close>

datatype msg_or_exception = Message string | AnException string string

definition exit_sample :: "globals \<Rightarrow> msg_or_exception \<Rightarrow> event list \<times> py_error" where
  "exit_sample g m =
     (let evs = (case m of
                   AnException cls msg \<Rightarrow>
                     [LogError ''Exiting sample due to exception.'', PrintTraceback cls msg]
                 | Message msg \<Rightarrow> [LogInfo (''Exiting: '' @ msg)])
      in case mqtt_connection g of
           None \<Rightarrow>
             (evs @ [LogInfo ''Disconnecting...''],
              PyException ''AttributeError''
                (CHR 0x27 # ''NoneType'' @ CHR 0x27 # '' object has no attribute '' @
                 CHR 0x27 # ''disconnect'' @ [CHR 0x27]))
         | Some c \<Rightarrow> (evs, SystemExit (ExitCode 0)))"

text \<open>\<^verbatim>\<open>exit_handler\<close>, lines 236 to 240, installed for \<^verbatim>\<open>SIGINT\<close> at line 244.\<close>

definition exit_handler :: "globals \<Rightarrow> event list \<times> py_error" where
  "exit_handler g = exit_sample g (Message '' Key abort'')"

definition disconnects :: "event list \<Rightarrow> connection list" where
  "disconnects evs = concat (map (\<lambda>e. case e of SdkDisconnect c \<Rightarrow> [c] | _ \<Rightarrow> []) evs)"

section \<open>Example inputs\<close>

text \<open>
  The globals as \<^verbatim>\<open>arg_check\<close> leaves them, a response with one group, one core and the two
  entries \<^verbatim>\<open>hostA:1234\<close> and \<^verbatim>\<open>hostB:5678\<close>, variations of it, and two networks: one in
  which only \<^verbatim>\<open>hostB\<close> answers and one in which nothing does. Their world is the number of
  connections tried so far.
\<close>

definition g0 :: globals where
  "g0 = \<lparr> private_key_path = Some ''/app/certs//device.private.key'',
          certtificate_path = Some ''/app/certs//device.cert.pem'',
          root_ca_path = Some ''/app/certs//AmazonRootCA1.pem'',
          device_name = Some ''alert-device'',
          region = Some ''ap-northeast-1'',
          mqtt_connection = None \<rparr>"

definition hostA :: connectivity_info where
  "hostA = \<lparr> host_address = ''hostA'', port = 1234 \<rparr>"

definition hostB :: connectivity_info where
  "hostB = \<lparr> host_address = ''hostB'', port = 5678 \<rparr>"

definition core1 :: gg_core where
  "core1 = \<lparr> thing_arn = ''arn:core1'', connectivity = [hostA, hostB] \<rparr>"

definition group1 :: gg_group where
  "group1 = \<lparr> cores = [core1], certificate_authorities = [''CA1''] \<rparr>"

definition group_no_ca :: gg_group where
  "group_no_ca = \<lparr> cores = [core1], certificate_authorities = [] \<rparr>"

definition group_no_entries :: gg_group where
  "group_no_entries =
     \<lparr> cores = [\<lparr> thing_arn = ''arn:core0'', connectivity = [] \<rparr>],
       certificate_authorities = [''CA0''] \<rparr>"

definition two_hosts :: discover_response where
  "two_hosts = \<lparr> gg_groups = [group1] \<rparr>"

definition no_entries :: discover_response where
  "no_entries = \<lparr> gg_groups = [group_no_entries] \<rparr>"


definition only_hostB :: "nat connect_oracle" where
  "only_hostB w c =
     (if endpoint c = ''hostB'' then None
      else Some (PyException ''AwsCrtError'' ''AWS_IO_SOCKET_TIMEOUT''), Suc w)"


text \<open>
  The globals before \<^verbatim>\<open>arg_check\<close>, a command line, a certificate directory with the three
  files and one without the root certificate, and an SDK in which discovery answers the
  response above and only \<^verbatim>\<open>hostB\<close> accepts connections.
\<close>

definition g_init :: globals where
  "g_init = \<lparr> private_key_path = None, certtificate_path = None, root_ca_path = None,
              device_name = None, region = None, mqtt_connection = None \<rparr>"

definition args0 :: args where
  "args0 = \<lparr> thing_name = ''alert-device'', region_arg = ''ap-northeast-1'', verbosity = NoLogs \<rparr>"


definition certs_complete :: walk where
  "certs_complete =
     [(''/app/certs/'', [], [''device.private.key'', ''device.cert.pem'', ''AmazonRootCA1.pem''])]"

definition sdk0 :: "nat sdk" where
  "sdk0 = \<lparr> tls_context = (\<lambda>cert key. None),
            discover = (\<lambda>w r n. (Inr two_hosts, Suc w)),
            connect = only_hostB,
            subscribe = (\<lambda>w c t q. (Inr q, Suc w)) \<rparr>"

section \<open>The nested loops try the candidates in discovery order\<close>

lemma connectivity_loop_flat:
  "connectivity_loop sdk g grp core w cis = try_in_order sdk g w (map (\<lambda>ci. (grp, core, ci)) cis)"
  by (induction cis arbitrary: w) (auto split: prod.splits sum.splits py_error.splits)

lemma try_in_order_append:
  "try_in_order sdk g w (xs @ ys) =
     (case try_in_order sdk g w xs of
        (w', evs, FellThrough) \<Rightarrow>
          (case try_in_order sdk g w' ys of (w'', evs', r) \<Rightarrow> (w'', evs @ evs', r))
      | (w', evs, Returned c) \<Rightarrow> (w', evs, Returned c)
      | (w', evs, Raised e) \<Rightarrow> (w', evs, Raised e))"
proof (induction xs arbitrary: w)
  case Nil
  show ?case by (simp split: prod.splits loop_exit.splits)
next
  case (Cons x xs)
  obtain grp core ci where x: "x = (grp, core, ci)" by (cases x)
  show ?case unfolding x
    by (auto simp: Cons.IH split: prod.splits sum.splits py_error.splits loop_exit.splits)
qed

lemma cores_loop_flat:
  "cores_loop sdk g grp w cs =
     try_in_order sdk g w (concat (map (\<lambda>core. map (\<lambda>ci. (grp, core, ci)) (connectivity core)) cs))"
  by (induction cs arbitrary: w)
     (auto simp: connectivity_loop_flat try_in_order_append split: prod.splits loop_exit.splits)

lemma groups_loop_flat:
  "groups_loop sdk g w gs =
     try_in_order sdk g w
       (concat (map (\<lambda>grp. concat (map (\<lambda>core. map (\<lambda>ci. (grp, core, ci)) (connectivity core))
                                     (cores grp))) gs))"
  by (induction gs arbitrary: w)
     (auto simp: cores_loop_flat try_in_order_append split: prod.splits loop_exit.splits)


























text \<open>
  Claim C3. A response without candidates (no group, or groups without cores, or cores
  without connectivity entries) leads to no attempt at all: nothing is announced, no
  connection is handed to the SDK, no failure is printed, the world is untouched, and the
  connection loop of \<^verbatim>\<open>discover_gg_host\<close> ends with
  \<^verbatim>\<open>sys.exit('All connection attempts failed')\<close>.
\<close>

theorem no_candidates:
  assumes "candidates resp = []"
  shows "connect_discovered sdk g w resp
           = (w, [], Inl (SystemExit (ExitMessage ''All connection attempts failed'')))
       \<and> tried (fst (snd (connect_discovered sdk g w resp))) = []
       \<and> sdk_connects (fst (snd (connect_discovered sdk g w resp))) = []
       \<and> failures (fst (snd (connect_discovered sdk g w resp))) = []"
proof -
  have "groups_loop sdk g w (gg_groups resp) = try_in_order sdk g w (candidates resp)"
    by (simp add: groups_loop_flat candidates_def)
  then have "groups_loop sdk g w (gg_groups resp) = (w, [], FellThrough)"
    using assms by simp
  then show ?thesis
    by (simp add: connect_discovered_def tried_def sdk_connects_def failures_def)
qed

lemma groups_loop_append:
  "groups_loop sdk g w (xs @ ys) =
     (case groups_loop sdk g w xs of
        (w', evs, FellThrough) \<Rightarrow>
          (case groups_loop sdk g w' ys of (w'', evs', r) \<Rightarrow> (w'', evs @ evs', r))
      | (w', evs, Returned c) \<Rightarrow> (w', evs, Returned c)
      | (w', evs, Raised e) \<Rightarrow> (w', evs, Raised e))"
  by (induction xs arbitrary: w) (auto split: prod.splits loop_exit.splits)

lemma connectivity_loop_no_ca:
  "certificate_authorities grp = [] \<Longrightarrow>
   connectivity_loop sdk g grp core w cis =
     (w, concat (map (\<lambda>ci. [PrintTrying (thing_arn core) (host_address ci) (port ci),
                            PrintFailed ''list index out of range'']) cis), FellThrough)"
  by (induction cis) (simp_all add: try_body_def)

lemma cores_loop_no_ca:
  "certificate_authorities grp = [] \<Longrightarrow>
   cores_loop sdk g grp w cs =
     (w, concat (map (\<lambda>core. concat (map (\<lambda>ci. [PrintTrying (thing_arn core) (host_address ci) (port ci),
                                                  PrintFailed ''list index out of range''])
                                         (connectivity core))) cs), FellThrough)"
  by (induction cs) (simp_all add: connectivity_loop_no_ca)

lemma sdk_connects_index_error_events: "sdk_connects (index_error_events grp) = []"
  by (simp add: sdk_connects_def index_error_events_def)

text \<open>
  Claim C10. A group without trust anchors, wherever it stands in the response: when the
  loop reaches it, each of its candidates is announced and fails with the \<^verbatim>\<open>IndexError\<close> of
  \<^verbatim>\<open>certificate_authorities[0]\<close>, which the handler catches and prints; no connection is
  handed to the SDK, the world is unchanged, and the loop goes on with the groups after
  it.
\<close>

theorem empty_trust_anchors_caught:
  assumes "certificate_authorities grp = []"
  shows "groups_loop sdk g w (pre @ grp # post) =
           (case groups_loop sdk g w pre of
              (w1, evs1, FellThrough) \<Rightarrow>
                (case groups_loop sdk g w1 post of
                   (w2, evs2, r) \<Rightarrow> (w2, evs1 @ index_error_events grp @ evs2, r))
            | (w1, evs1, Returned c) \<Rightarrow> (w1, evs1, Returned c)
            | (w1, evs1, Raised e) \<Rightarrow> (w1, evs1, Raised e))
       \<and> sdk_connects (index_error_events grp) = []"
proof -
  have "groups_loop sdk g w1 (grp # post) =
          (case groups_loop sdk g w1 post of (w2, evs2, r) \<Rightarrow> (w2, index_error_events grp @ evs2, r))"
    for w1
    using assms by (simp add: cores_loop_no_ca index_error_events_def split: prod.splits)
  then show ?thesis
    by (simp add: groups_loop_append sdk_connects_index_error_events
             split: prod.splits loop_exit.splits)
qed





text \<open>
  A response whose only core lists no connectivity entry.
\<close>

theorem no_candidates_witness:
  "candidates no_entries = []
   \<and> connect_discovered only_hostB g0 0 no_entries
       = (0, [], Inl (SystemExit (ExitMessage ''All connection attempts failed'')))"
proof -
  have h: "candidates no_entries = []"
    by (simp add: candidates_def no_entries_def group_no_entries_def)
  show ?thesis
    using h no_candidates [OF h, of only_hostB g0 0] by simp
qed

text \<open>
  A group without trust anchors followed by a group that has one.
\<close>

theorem empty_trust_anchors_caught_witness:
  "certificate_authorities group_no_ca = []
   \<and> snd (snd (groups_loop only_hostB g0 0 ([] @ group_no_ca # [group1])))
       = Returned (mtls_from_path g0 hostB ''CA1'')
   \<and> failures (fst (snd (groups_loop only_hostB g0 0 ([] @ group_no_ca # [group1]))))
       = [''list index out of range'', ''list index out of range'', ''AWS_IO_SOCKET_TIMEOUT'']"
proof -
  have h: "certificate_authorities group_no_ca = []"
    by (simp add: group_no_ca_def)
  have rest: "groups_loop only_hostB g0 0 [group1] =
      (Suc (Suc 0),
       [PrintTrying ''arn:core1'' ''hostA'' 1234, SdkConnect (mtls_from_path g0 hostA ''CA1''),
        PrintFailed ''AWS_IO_SOCKET_TIMEOUT'',
        PrintTrying ''arn:core1'' ''hostB'' 5678, SdkConnect (mtls_from_path g0 hostB ''CA1''),
        PrintConnected],
       Returned (mtls_from_path g0 hostB ''CA1''))"
    by (simp add: try_body_def mtls_from_path_def group1_def core1_def hostA_def hostB_def
                  only_hostB_def)
  have run: "groups_loop only_hostB g0 0 ([] @ group_no_ca # [group1]) =
      (Suc (Suc 0),
       [] @ index_error_events group_no_ca @
       [PrintTrying ''arn:core1'' ''hostA'' 1234, SdkConnect (mtls_from_path g0 hostA ''CA1''),
        PrintFailed ''AWS_IO_SOCKET_TIMEOUT'',
        PrintTrying ''arn:core1'' ''hostB'' 5678, SdkConnect (mtls_from_path g0 hostB ''CA1''),
        PrintConnected],
       Returned (mtls_from_path g0 hostB ''CA1''))"
    by (simp only: empty_trust_anchors_caught [OF h, of only_hostB g0 0 "[]" "[group1]", THEN conjunct1]
                   groups_loop.simps(1) rest prod.case loop_exit.case)
  show ?thesis
    unfolding run using h
    by (simp add: index_error_events_def failures_def group_no_ca_def core1_def)
qed


section \<open>Certificate lookup at startup\<close>

lemma names_loop_find: "names_loop p names = List.find (str_contains p) names"
  by (induction names) simp_all

lemma find_append:
  "List.find P (xs @ ys) = (case List.find P xs of Some x \<Rightarrow> Some x | None \<Rightarrow> List.find P ys)"
  by (induction xs) simp_all

lemma walk_loop_find: "walk_loop p tree = List.find (str_contains p) (all_names tree)"
  by (induction tree) (auto simp: all_names_def names_loop_find find_append split: option.splits)

lemma find_cert_file_eq:
  "find_cert_file CERT_ROOT tree p =
     (case List.find (str_contains p) (all_names tree) of
        Some file \<Rightarrow> Inr (CERT_ROOT @ ''/'' @ file)
      | None \<Rightarrow> Inl (PyException ''Exception'' (p @ '' not found.'')))"
  by (simp add: find_cert_file_def walk_loop_find prepend_def split: option.splits)

text \<open>
  \<open>str_contains\<close> is the substring test: \<open>sub\<close> is in \<open>s\<close> exactly when \<open>s\<close> is some text,
  \<open>sub\<close>, and some text.
\<close>

lemma str_contains_iff: "str_contains sub s \<longleftrightarrow> (\<exists>pre suf. s = pre @ sub @ suf)"
proof (induction s)
  case Nil
  then show ?case by auto
next
  case (Cons c cs)
  have "take (length sub) (c # cs) = sub \<longleftrightarrow> (\<exists>suf. c # cs = sub @ suf)"
    by (metis append_eq_conv_conj)
  moreover have "(\<exists>pre suf. c # cs = pre @ sub @ suf) \<longleftrightarrow>
                 (\<exists>suf. c # cs = sub @ suf) \<or> (\<exists>pre suf. cs = pre @ sub @ suf)"
  proof
    assume "\<exists>pre suf. c # cs = pre @ sub @ suf"
    then obtain pre suf where e: "c # cs = pre @ sub @ suf" by blast
    show "(\<exists>suf. c # cs = sub @ suf) \<or> (\<exists>pre suf. cs = pre @ sub @ suf)"
    proof (cases pre)
      case Nil
      then show ?thesis using e by auto
    next
      case (Cons a pre')
      then have "cs = pre' @ sub @ suf" using e by simp
      then show ?thesis by blast
    qed
  next
    assume "(\<exists>suf. c # cs = sub @ suf) \<or> (\<exists>pre suf. cs = pre @ sub @ suf)"
    then show "\<exists>pre suf. c # cs = pre @ sub @ suf"
    proof
      assume "\<exists>suf. c # cs = sub @ suf"
      then obtain suf where "c # cs = [] @ sub @ suf" by auto
      then show ?thesis by blast
    next
      assume "\<exists>pre suf. cs = pre @ sub @ suf"
      then obtain pre suf where "c # cs = (c # pre) @ sub @ suf" by auto
      then show ?thesis by blast
    qed
  qed
  ultimately show ?case using Cons.IH by simp
qed

lemma arg_check_events:
  "fst (arg_check CERT_ROOT tree (Inr a) g) =
     [InitLogging (verbosity a), LoggerSetLevel (loglevel_map ! LogLevel_value (verbosity a))]"
  by (simp add: arg_check_def Let_def split: sum.splits)







text \<open>
  A whole start: the three files are there, discovery answers, \<^verbatim>\<open>hostA\<close> times out and
  \<^verbatim>\<open>hostB\<close> connects; the program subscribes to \<^verbatim>\<open>alert/#\<close> and reaches its wait loop with
  the connection to \<^verbatim>\<open>hostB\<close> in \<^verbatim>\<open>mqtt_connection\<close>.
\<close>

lemma device_main_example:
  "device_main sdk0 ''/app/certs/'' certs_complete (Inr args0) g_init 0 =
     (Suc (Suc (Suc (Suc 0))),
      [InitLogging NoLogs, LoggerSetLevel 20,
       SdkTlsContext (certtificate_path g0) (private_key_path g0),
       LogInfo ''Performing greengrass discovery...'',
       SdkDiscover (region g0) (device_name g0),
       LogDebug two_hosts,
       PrintTrying ''arn:core1'' ''hostA'' 1234, SdkConnect (mtls_from_path g0 hostA ''CA1''),
       PrintFailed ''AWS_IO_SOCKET_TIMEOUT'',
       PrintTrying ''arn:core1'' ''hostB'' 5678, SdkConnect (mtls_from_path g0 hostB ''CA1''),
       PrintConnected,
       SdkSubscribe (mtls_from_path g0 hostB ''CA1'') ''alert/#'' AT_MOST_ONCE,
       PrintSubscribed ''alert/#'' AT_MOST_ONCE],
      Inr (g0\<lparr> mqtt_connection := Some (mtls_from_path g0 hostB ''CA1'') \<rparr>))"
proof -
  have ac: "arg_check ''/app/certs/'' certs_complete (Inr args0) g_init
              = ([InitLogging NoLogs, LoggerSetLevel 20], Inr g0)"
    by (simp add: arg_check_def find_cert_file_eq all_names_def certs_complete_def args0_def
                  g_init_def g0_def loglevel_map_def)
  have cd: "connect_discovered only_hostB g0 (Suc 0) two_hosts =
      (Suc (Suc (Suc 0)),
       [PrintTrying ''arn:core1'' ''hostA'' 1234, SdkConnect (mtls_from_path g0 hostA ''CA1''),
        PrintFailed ''AWS_IO_SOCKET_TIMEOUT'',
        PrintTrying ''arn:core1'' ''hostB'' 5678, SdkConnect (mtls_from_path g0 hostB ''CA1''),
        PrintConnected],
       Inr (mtls_from_path g0 hostB ''CA1''))"
    by (simp add: connect_discovered_def two_hosts_def try_body_def mtls_from_path_def
                  group1_def core1_def hostA_def hostB_def only_hostB_def)
  have dg: "discover_gg_host sdk0 g0 0 =
      (Suc (Suc (Suc 0)),
       [SdkTlsContext (certtificate_path g0) (private_key_path g0),
        LogInfo ''Performing greengrass discovery...'',
        SdkDiscover (region g0) (device_name g0),
        LogDebug two_hosts,
        PrintTrying ''arn:core1'' ''hostA'' 1234, SdkConnect (mtls_from_path g0 hostA ''CA1''),
        PrintFailed ''AWS_IO_SOCKET_TIMEOUT'',
        PrintTrying ''arn:core1'' ''hostB'' 5678, SdkConnect (mtls_from_path g0 hostB ''CA1''),
        PrintConnected],
       Inr (mtls_from_path g0 hostB ''CA1''))"
    by (simp add: discover_gg_host_def sdk0_def cd)
  have sub: "subscribe sdk0 w c t q = (Inr q, Suc w)" for w c t q
    by (simp add: sdk0_def)
  show ?thesis
    by (simp add: device_main_def ac dg sub)
qed

section \<open>Connection callbacks and shutdown\<close>

text \<open>
  Claim C4. When the connection is resumed with \<^verbatim>\<open>session_present\<close> true, whatever the
  return code, the handler prints its one line and does nothing else: it calls
  \<^verbatim>\<open>resubscribe_existing_topics\<close> zero times and makes no other call into the SDK, so the
  subscriptions the session holds stay as they are.
\<close>

theorem resumed_with_session_present:
  "on_connection_resumed c return_code True = [PrintResumed return_code True]
   \<and> resubscribe_calls (on_connection_resumed c return_code True) = []
   \<and> filter is_network (on_connection_resumed c return_code True) = []"
  by (simp add: on_connection_resumed_def resubscribe_calls_def)

lemma topics_loop_find:
  "topics_loop ts =
     (case List.find (\<lambda>(topic, qos). qos = None) ts of
        None \<Rightarrow> None
      | Some (topic, qos) \<Rightarrow>
          Some (SystemExit (ExitMessage (''Server rejected resubscribe to topic: '' @ topic))))"
  by (induction ts rule: topics_loop.induct) (auto split: option.splits)

text \<open>
  Claim C5, as the code has it. The handler calls \<^verbatim>\<open>resubscribe_existing_topics\<close> exactly
  once when the return code is \<^verbatim>\<open>ACCEPTED\<close> and the session did not persist, and not at all
  otherwise; the number of calls does not depend on how many subscriptions there were,
  re-issuing them is left to that one SDK call. When the results arrive,
  \<^verbatim>\<open>on_resubscribe_complete\<close> prints them and goes through the acknowledgments in order: at
  the first one without a granted quality of service it calls \<^verbatim>\<open>sys.exit\<close> with a message
  naming that topic, once, since the exit ends the loop; when every topic was granted it
  returns.
\<close>

theorem resubscribe_when_accepted:
  "resubscribe_calls (on_connection_resumed c return_code session_present)
     = (if return_code = ACCEPTED \<and> \<not> session_present then [c] else [])
   \<and> on_resubscribe_complete (Inr r)
     = ([PrintResubscribeResults (topics r)],
        case List.find (\<lambda>(topic, qos). qos = None) (topics r) of
          None \<Rightarrow> None
        | Some (topic, qos) \<Rightarrow>
            Some (SystemExit (ExitMessage (''Server rejected resubscribe to topic: '' @ topic))))"
  by (auto simp: on_connection_resumed_def resubscribe_calls_def on_resubscribe_complete_def
                topics_loop_find)

text \<open>
  The claim C5 as written fails for a notification with \<^verbatim>\<open>session_present\<close> false whose
  return code is not \<^verbatim>\<open>ACCEPTED\<close>: the connection holds the subscription to \<^verbatim>\<open>alert/#\<close>, and
  nothing is re-issued. With \<^verbatim>\<open>ACCEPTED\<close> the handler makes one call, whatever the number of
  subscriptions.
\<close>

theorem resumed_not_accepted_no_resubscribe:
  "resubscribe_calls
     (on_connection_resumed (mtls_from_path g0 hostB ''CA1'') SERVER_UNAVAILABLE False) = []
   \<and> length (resubscribe_calls
       (on_connection_resumed (mtls_from_path g0 hostB ''CA1'') ACCEPTED False)) = 1"
  by (simp add: on_connection_resumed_def resubscribe_calls_def)

text \<open>
  Claim C7, what the code does on \<^verbatim>\<open>SIGINT\<close>. With a live connection in \<^verbatim>\<open>mqtt_connection\<close>
  the guard \<^verbatim>\<open>not mqtt_connection\<close> fails: the handler logs its message and leaves with
  \<^verbatim>\<open>sys.exit(0)\<close> without disconnecting. With no connection the guard holds: the handler logs
  \<^verbatim>\<open>Disconnecting...\<close> and the call of \<^verbatim>\<open>disconnect\<close> on \<^verbatim>\<open>None\<close> raises \<^verbatim>\<open>AttributeError\<close>
  instead of the exit with status 0. The guard is the inverse of what the claim asks for.
\<close>

theorem exit_handler_guard:
  "exit_handler (g\<lparr> mqtt_connection := Some c \<rparr>)
     = ([LogInfo ''Exiting:  Key abort''], SystemExit (ExitCode 0))
   \<and> disconnects (fst (exit_handler (g\<lparr> mqtt_connection := Some c \<rparr>))) = []
   \<and> fst (exit_handler (g\<lparr> mqtt_connection := None \<rparr>))
     = [LogInfo ''Exiting:  Key abort'', LogInfo ''Disconnecting...'']
   \<and> (\<exists>msg. snd (exit_handler (g\<lparr> mqtt_connection := None \<rparr>)) = PyException ''AttributeError'' msg)
   \<and> exit_status (snd (exit_handler (g\<lparr> mqtt_connection := None \<rparr>))) = 1"
  by (simp add: exit_handler_def exit_sample_def disconnects_def)

text \<open>
  Claim C9, what the code does on an interruption. The message is built with the percent
  operator from a format string that contains no conversion, so for every error the
  operator raises \<^verbatim>\<open>TypeError\<close> before \<^verbatim>\<open>logger.info\<close> is called: nothing is logged and the
  handler raises. It makes no call into the SDK and does not run discovery again.
\<close>

theorem on_connection_interupted_raises:
  "on_connection_interupted c error
     = ([], Some (PyException ''TypeError''
                    ''not all arguments converted during string formatting''))"
  by (simp add: on_connection_interupted_def prepend_def)


end
